theory Spec2Isabelle
  imports Main "HOL-Library.Word" "HOL-Library.Sublist"
begin

section \<open>Values of the Go program\<close>

text \<open>
  Go's \<^verbatim>\<open>int\<close> is a 64-bit two's complement integer (on the usual 64-bit targets).
  The program only compares such values (signed comparison) and prints them with
  \<^verbatim>\<open>%d\<close>; it does no arithmetic on them.  A Go \<^verbatim>\<open>string\<close> is a sequence of bytes.
\<close>

type_synonym go_int = "64 word"

text \<open>
  A JSON document.  Numbers keep their literal text, members of an object keep their
  order (and their duplicates).
\<close>

datatype json =
    JNull
  | JBool bool
  | JNumber string
  | JString string
  | JArray "json list"
  | JObject "(string \<times> json) list"

text \<open>
  A byte slice handed to \<^verbatim>\<open>json.Unmarshal\<close> (a response body, a \<^verbatim>\<open>json.RawMessage\<close>)
  is represented by the JSON document it spells: \<open>Some j\<close> when the bytes are the text
  of the document \<open>j\<close>, \<open>None\<close> when they are not one well-formed JSON text (which
  includes the nil and the empty slice).
\<close>

type_synonym bytes = "json option"

text \<open>
  The values of Go's \<^verbatim>\<open>error\<close> the program can meet: whatever the client's
  \<^verbatim>\<open>do\<close> reports, the two errors of \<^verbatim>\<open>json.Unmarshal\<close> (a syntax error; a type
  mismatch, with the kind of the offending JSON value), and \<^verbatim>\<open>errors.New(msg)\<close>.
\<close>

datatype error =
    DoError string
  | SyntaxError
  | UnmarshalTypeError string
  | ErrorsNew string

section \<open>Library functions used by the program\<close>

subsection \<open>\<^verbatim>\<open>fmt.Sprintf("%d", i)\<close>\<close>

definition digit :: "nat \<Rightarrow> char" where
  "digit n = char_of (48 + n)"

fun digits :: "nat \<Rightarrow> string" where
  "digits n = (if n < 10 then [digit n] else digits (n div 10) @ [digit (n mod 10)])"

declare digits.simps [simp del]

definition fmt_d :: "go_int \<Rightarrow> string" where
  "fmt_d i = (if i <s 0 then CHR ''-'' # digits (nat (- sint i)) else digits (nat (sint i)))"

subsection \<open>\<^verbatim>\<open>strings.ToUpper\<close>\<close>

text \<open>
  \<^verbatim>\<open>strings.ToUpper\<close> has two paths.  A string of ASCII bytes only is mapped byte by
  byte, \<^verbatim>\<open>'a'..'z'\<close> to \<^verbatim>\<open>'A'..'Z'\<close>.  Any other string goes through
  \<^verbatim>\<open>strings.Map(unicode.ToUpper, s)\<close>, which depends on the Unicode tables: that
  function is the parameter \<open>up\<close>.
\<close>

definition upper_byte :: "char \<Rightarrow> char" where
  "upper_byte c =
     (if (97::nat) \<le> of_char c \<and> of_char c \<le> (122::nat)
      then char_of (of_char c - (32::nat)) else c)"

definition isASCII :: "string \<Rightarrow> bool" where
  "isASCII s = list_all (\<lambda>c. of_char c < (128::nat)) s"

definition ToUpper :: "(string \<Rightarrow> string) \<Rightarrow> string \<Rightarrow> string" where
  "ToUpper up s = (if isASCII s then map upper_byte s else up s)"

subsection \<open>\<^verbatim>\<open>json.Unmarshal\<close>\<close>

text \<open>
  \<^verbatim>\<open>json.Unmarshal(data, &v)\<close> at a Go type is a function from the JSON value and
  the present content of \<open>v\<close> to the new content of \<open>v\<close> and the error.  Invalid
  text is rejected before anything is stored.  A JSON value that does not fit its
  target is skipped, the earliest such error is kept, and decoding goes on with the
  rest of the document.
\<close>

type_synonym 'a decoder = "json \<Rightarrow> 'a \<Rightarrow> 'a \<times> error option"

definition Unmarshal :: "'a decoder \<Rightarrow> bytes \<Rightarrow> 'a \<Rightarrow> 'a \<times> error option" where
  "Unmarshal dec data v = (case data of None \<Rightarrow> (v, Some SyntaxError) | Some j \<Rightarrow> dec j v)"

definition saveError :: "error option \<Rightarrow> error option \<Rightarrow> error option" where
  "saveError saved e = (case saved of None \<Rightarrow> e | Some s \<Rightarrow> Some s)"

fun kind :: "json \<Rightarrow> string" where
  "kind JNull = ''null''"
| "kind (JBool b) = ''bool''"
| "kind (JNumber n) = ''number''"
| "kind (JString s) = ''string''"
| "kind (JArray js) = ''array''"
| "kind (JObject ms) = ''object''"

text \<open>Targets of type \<^verbatim>\<open>bool\<close>, \<^verbatim>\<open>string\<close> and \<^verbatim>\<open>json.RawMessage\<close>.\<close>

fun dec_bool :: "bool decoder" where
  "dec_bool JNull v = (v, None)"
| "dec_bool (JBool b) v = (b, None)"
| "dec_bool j v = (v, Some (UnmarshalTypeError (kind j)))"

fun dec_string :: "string decoder" where
  "dec_string JNull v = (v, None)"
| "dec_string (JString s) v = (s, None)"
| "dec_string j v = (v, Some (UnmarshalTypeError (kind j)))"

definition dec_RawMessage :: "bytes decoder" where
  "dec_RawMessage j v = (Some j, None)"

text \<open>
  A target of slice type: \<^verbatim>\<open>null\<close> sets the slice to nil, an array is decoded
  element by element, each element from the zero value \<open>z\<close> of the element type, and
  appended in the order of the document.
\<close>

fun dec_elems :: "'e decoder \<Rightarrow> 'e \<Rightarrow> json list \<Rightarrow> 'e list \<times> error option" where
  "dec_elems d z [] = ([], None)"
| "dec_elems d z (j # js) =
     (let (x, e) = d j z; (xs, es) = dec_elems d z js in (x # xs, saveError e es))"

fun dec_slice :: "'e decoder \<Rightarrow> 'e \<Rightarrow> 'e list decoder" where
  "dec_slice d z JNull v = ([], None)"
| "dec_slice d z (JArray js) v = dec_elems d z js"
| "dec_slice d z j v = (v, Some (UnmarshalTypeError (kind j)))"

text \<open>
  Members of a JSON object are matched with the fields of a struct by name, ignoring
  the case of ASCII letters.  (The library also takes the long s and the Kelvin sign for
  \<^verbatim>\<open>s\<close> and \<^verbatim>\<open>k\<close>; names written with them are not matched here.)  A member that matches no
  field is skipped, and of two members with one name the later one is decoded last.
\<close>

definition foldName :: "string \<Rightarrow> string" where
  "foldName k = map upper_byte k"

section \<open>Types of the package\<close>

text \<open>The arguments of one call of the client's \<^verbatim>\<open>do\<close>.\<close>

record request =
  httpMethod :: string
  ressource :: string
  payload :: string
  authNeeded :: bool

text \<open>
  Modelled from the spec: the client behind \<^verbatim>\<open>b.client\<close> and its \<^verbatim>\<open>do\<close>, which are
  declared outside these sources.  \<^verbatim>\<open>do(method, ressource, payload, authNeeded)\<close>
  builds the request, sends it, and returns the bytes of the response or an error.
  The client is the exchange's answer to each request (\<open>reply\<close>) together with the
  requests issued so far (\<open>sent\<close>).
\<close>

record client =
  reply :: "request \<Rightarrow> error + bytes"
  sent :: "request list"

definition do ::
  "client \<Rightarrow> string \<Rightarrow> string \<Rightarrow> string \<Rightarrow> bool \<Rightarrow> (error + bytes) \<times> client" where
  "do c m res p auth =
     (let q = \<lparr>httpMethod = m, ressource = res, payload = p, authNeeded = auth\<rparr>
      in (reply c q, c\<lparr>sent := sent c @ [q]\<rparr>))"

text \<open>
  Modelled from the spec: the envelope \<^verbatim>\<open>jsonResponse\<close>, declared outside these
  sources: \<^verbatim>\<open>{success: boolean, message: string, result: opaque JSON}\<close>, the result
  being kept as raw bytes.
\<close>

record jsonResponse =
  Success :: bool
  Message :: string
  Result :: bytes

definition zero_jsonResponse :: jsonResponse where
  "zero_jsonResponse = \<lparr>Success = False, Message = [], Result = None\<rparr>"

fun dec_jsonResponse_members ::
  "(string \<times> json) list \<Rightarrow> jsonResponse \<Rightarrow> jsonResponse \<times> error option" where
  "dec_jsonResponse_members [] r = (r, None)"
| "dec_jsonResponse_members ((k, j) # ms) r =
     (let (r, e) =
        (if foldName k = foldName ''success''
           then (let (x, e) = dec_bool j (Success r) in (r\<lparr>Success := x\<rparr>, e))
         else if foldName k = foldName ''message''
           then (let (x, e) = dec_string j (Message r) in (r\<lparr>Message := x\<rparr>, e))
         else if foldName k = foldName ''result''
           then (let (x, e) = dec_RawMessage j (Result r) in (r\<lparr>Result := x\<rparr>, e))
         else (r, None));
          (r, es) = dec_jsonResponse_members ms r
      in (r, saveError e es))"

fun dec_jsonResponse :: "jsonResponse decoder" where
  "dec_jsonResponse JNull r = (r, None)"
| "dec_jsonResponse (JObject ms) r = dec_jsonResponse_members ms r"
| "dec_jsonResponse j r = (r, Some (UnmarshalTypeError (kind j)))"

text \<open>
  Modelled from the spec: \<^verbatim>\<open>OrderBook\<close>, declared outside these sources:
  \<^verbatim>\<open>{buy: sequence of entries, sell: sequence of entries}\<close>.  The type of the entries
  is a parameter, with its decoder \<open>d\<close> and its zero value \<open>z\<close>.
\<close>

record 'e OrderBook =
  Buy :: "'e list"
  Sell :: "'e list"

definition zero_OrderBook :: "'e OrderBook" where
  "zero_OrderBook = \<lparr>Buy = [], Sell = []\<rparr>"

fun dec_OrderBook_members ::
  "'e decoder \<Rightarrow> 'e \<Rightarrow> (string \<times> json) list \<Rightarrow> 'e OrderBook
    \<Rightarrow> 'e OrderBook \<times> error option" where
  "dec_OrderBook_members d z [] v = (v, None)"
| "dec_OrderBook_members d z ((k, j) # ms) v =
     (let (v, e) =
        (if foldName k = foldName ''buy''
           then (let (x, e) = dec_slice d z j (Buy v) in (v\<lparr>Buy := x\<rparr>, e))
         else if foldName k = foldName ''sell''
           then (let (x, e) = dec_slice d z j (Sell v) in (v\<lparr>Sell := x\<rparr>, e))
         else (v, None));
          (v, es) = dec_OrderBook_members d z ms v
      in (v, saveError e es))"

fun dec_OrderBook :: "'e decoder \<Rightarrow> 'e \<Rightarrow> 'e OrderBook decoder" where
  "dec_OrderBook d z JNull v = (v, None)"
| "dec_OrderBook d z (JObject ms) v = dec_OrderBook_members d z ms v"
| "dec_OrderBook d z j v = (v, Some (UnmarshalTypeError (kind j)))"

text \<open>
  Modelled from the spec: \<^verbatim>\<open>Uuid\<close>, declared outside these sources: the single-field
  wrapper \<^verbatim>\<open>{uuid: string}\<close>, read by the program through its field \<^verbatim>\<open>Id\<close>.
\<close>

record Uuid =
  Id :: string

definition zero_Uuid :: Uuid where
  "zero_Uuid = \<lparr>Id = []\<rparr>"

fun dec_Uuid_members :: "(string \<times> json) list \<Rightarrow> Uuid \<Rightarrow> Uuid \<times> error option" where
  "dec_Uuid_members [] u = (u, None)"
| "dec_Uuid_members ((k, j) # ms) u =
     (let (u, e) =
        (if foldName k = foldName ''uuid''
           then (let (x, e) = dec_string j (Id u) in (u\<lparr>Id := x\<rparr>, e))
         else (u, None));
          (u, es) = dec_Uuid_members ms u
      in (u, saveError e es))"

fun dec_Uuid :: "Uuid decoder" where
  "dec_Uuid JNull u = (u, None)"
| "dec_Uuid (JObject ms) u = dec_Uuid_members ms u"
| "dec_Uuid j u = (u, Some (UnmarshalTypeError (kind j)))"

section \<open>The package\<close>

definition handleErr :: "jsonResponse \<Rightarrow> error option" where
  "handleErr r = (if \<not> Success r then Some (ErrorsNew (Message r)) else None)"

text \<open>
  Every operation takes the client \<open>b\<close> and returns, with its results, the client after
  the call.  A payload whose Go type is declared outside these sources is a type variable,
  given with its decoder \<open>dec\<close> and its zero value \<open>zero\<close> (the initial content of the
  named result).  Where the source uses \<^verbatim>\<open>strings.ToUpper\<close>, the operation takes \<open>up\<close>.
\<close>

text \<open>The open and available trading markets.\<close>

definition GetMarkets :: "'a decoder \<Rightarrow> 'a \<Rightarrow> client \<Rightarrow> ('a \<times> error option) \<times> client" where
  "GetMarkets dec zero b =
     (let (r, b) = do b ''GET'' ''public/getmarkets'' [] False
      in case r of
        Inl err \<Rightarrow> ((zero, Some err), b)
      | Inr r \<Rightarrow>
          (case Unmarshal dec_jsonResponse r zero_jsonResponse of
             (response, Some err) \<Rightarrow> ((zero, Some err), b)
           | (response, None) \<Rightarrow>
               (case handleErr response of
                  Some err \<Rightarrow> ((zero, Some err), b)
                | None \<Rightarrow> (Unmarshal dec (Result response) zero, b))))"

text \<open>The current ticker values for a market.\<close>

definition GetTicker ::
  "(string \<Rightarrow> string) \<Rightarrow> 'a decoder \<Rightarrow> 'a \<Rightarrow> client \<Rightarrow> string
    \<Rightarrow> ('a \<times> error option) \<times> client" where
  "GetTicker up dec zero b market =
     (let (r, b) = do b ''GET'' (''public/getticker?market='' @ ToUpper up market) [] False
      in case r of
        Inl err \<Rightarrow> ((zero, Some err), b)
      | Inr r \<Rightarrow>
          (case Unmarshal dec_jsonResponse r zero_jsonResponse of
             (response, Some err) \<Rightarrow> ((zero, Some err), b)
           | (response, None) \<Rightarrow>
               (case handleErr response of
                  Some err \<Rightarrow> ((zero, Some err), b)
                | None \<Rightarrow> (Unmarshal dec (Result response) zero, b))))"

text \<open>The last 24 hour summary of all active exchanges.\<close>

definition GetMarketSummaries :: "'a decoder \<Rightarrow> 'a \<Rightarrow> client \<Rightarrow> ('a \<times> error option) \<times> client" where
  "GetMarketSummaries dec zero b =
     (let (r, b) = do b ''GET'' ''public/getmarketsummaries'' [] False
      in case r of
        Inl err \<Rightarrow> ((zero, Some err), b)
      | Inr r \<Rightarrow>
          (case Unmarshal dec_jsonResponse r zero_jsonResponse of
             (response, Some err) \<Rightarrow> ((zero, Some err), b)
           | (response, None) \<Rightarrow>
               (case handleErr response of
                  Some err \<Rightarrow> ((zero, Some err), b)
                | None \<Rightarrow> (Unmarshal dec (Result response) zero, b))))"

text \<open>
  The order book of a market.  \<open>cat\<close> is buy, sell or both, to identify the type of order
  book to return; \<open>depth\<close> is how deep an order book to retrieve, at most 100.
\<close>

definition GetOrderBook ::
  "(string \<Rightarrow> string) \<Rightarrow> 'e decoder \<Rightarrow> 'e \<Rightarrow> client \<Rightarrow> string \<Rightarrow> string \<Rightarrow> go_int
    \<Rightarrow> ('e OrderBook \<times> error option) \<times> client" where
  "GetOrderBook up d z b market cat depth =
     (let
        cat = (if cat \<noteq> ''buy'' \<and> cat \<noteq> ''sell'' \<and> cat \<noteq> ''both'' then ''both'' else cat);
        depth = (if 100 <s depth then 100 else depth);
        depth = (if depth <s 1 then 1 else depth);
        (r, b) =
          do b ''GET''
            (''public/getorderbook?market='' @ ToUpper up market
               @ ''&type='' @ cat @ ''&depth='' @ fmt_d depth)
            [] False
      in case r of
        Inl err \<Rightarrow> ((zero_OrderBook, Some err), b)
      | Inr r \<Rightarrow>
          (case Unmarshal dec_jsonResponse r zero_jsonResponse of
             (response, Some err) \<Rightarrow> ((zero_OrderBook, Some err), b)
           | (response, None) \<Rightarrow>
               (case handleErr response of
                  Some err \<Rightarrow> ((zero_OrderBook, Some err), b)
                | None \<Rightarrow> (Unmarshal (dec_OrderBook d z) (Result response) zero_OrderBook, b))))"

text \<open>
  The latest trades that have occurred for a market; \<open>count\<close> is a number between 1 and
  100 for the number of entries to return.
\<close>

definition GetMarketHistory ::
  "(string \<Rightarrow> string) \<Rightarrow> 'a decoder \<Rightarrow> 'a \<Rightarrow> client \<Rightarrow> string \<Rightarrow> go_int
    \<Rightarrow> ('a \<times> error option) \<times> client" where
  "GetMarketHistory up dec zero b market count =
     (let
        count = (if 100 <s count then 100 else count);
        count = (if count <s 1 then 1 else count);
        (r, b) =
          do b ''GET''
            (''public/getmarkethistory?market='' @ ToUpper up market
               @ ''&count='' @ fmt_d count)
            [] False
      in case r of
        Inl err \<Rightarrow> ((zero, Some err), b)
      | Inr r \<Rightarrow>
          (case Unmarshal dec_jsonResponse r zero_jsonResponse of
             (response, Some err) \<Rightarrow> ((zero, Some err), b)
           | (response, None) \<Rightarrow>
               (case handleErr response of
                  Some err \<Rightarrow> ((zero, Some err), b)
                | None \<Rightarrow> (Unmarshal dec (Result response) zero, b))))"

text \<open>
  Places a limited buy order in a market.  The quantity and the rate are floating-point
  numbers; \<open>ff\<close> is their formatting \<^verbatim>\<open>strconv.FormatFloat(x, 'f', 8, 64)\<close>.
\<close>

definition BuyLimit ::
  "('f \<Rightarrow> string) \<Rightarrow> client \<Rightarrow> string \<Rightarrow> 'f \<Rightarrow> 'f
    \<Rightarrow> (string \<times> error option) \<times> client" where
  "BuyLimit ff b market quantity rate =
     (let
        (r, b) =
          do b ''GET''
            (''market/buylimit?market='' @ market @ ''&quantity='' @ ff quantity
               @ ''&rate='' @ ff rate)
            [] True
      in case r of
        Inl err \<Rightarrow> (([], Some err), b)
      | Inr r \<Rightarrow>
          (case Unmarshal dec_jsonResponse r zero_jsonResponse of
             (response, Some err) \<Rightarrow> (([], Some err), b)
           | (response, None) \<Rightarrow>
               (case handleErr response of
                  Some err \<Rightarrow> (([], Some err), b)
                | None \<Rightarrow> (let (u, err) = Unmarshal dec_Uuid (Result response) zero_Uuid
                    in ((Id u, err), b)))))"

text \<open>Places a market buy order in a market.\<close>

definition BuyMarket ::
  "('f \<Rightarrow> string) \<Rightarrow> client \<Rightarrow> string \<Rightarrow> 'f
    \<Rightarrow> (string \<times> error option) \<times> client" where
  "BuyMarket ff b market quantity =
     (let
        (r, b) =
          do b ''GET''
            (''market/buymarket?market='' @ market @ ''&quantity='' @ ff quantity)
            [] True
      in case r of
        Inl err \<Rightarrow> (([], Some err), b)
      | Inr r \<Rightarrow>
          (case Unmarshal dec_jsonResponse r zero_jsonResponse of
             (response, Some err) \<Rightarrow> (([], Some err), b)
           | (response, None) \<Rightarrow>
               (case handleErr response of
                  Some err \<Rightarrow> (([], Some err), b)
                | None \<Rightarrow> (let (u, err) = Unmarshal dec_Uuid (Result response) zero_Uuid
                    in ((Id u, err), b)))))"

text \<open>Places a limited sell order in a market.\<close>

definition SellLimit ::
  "('f \<Rightarrow> string) \<Rightarrow> client \<Rightarrow> string \<Rightarrow> 'f \<Rightarrow> 'f
    \<Rightarrow> (string \<times> error option) \<times> client" where
  "SellLimit ff b market quantity rate =
     (let
        (r, b) =
          do b ''GET''
            (''market/selllimit?market='' @ market @ ''&quantity='' @ ff quantity
               @ ''&rate='' @ ff rate)
            [] True
      in case r of
        Inl err \<Rightarrow> (([], Some err), b)
      | Inr r \<Rightarrow>
          (case Unmarshal dec_jsonResponse r zero_jsonResponse of
             (response, Some err) \<Rightarrow> (([], Some err), b)
           | (response, None) \<Rightarrow>
               (case handleErr response of
                  Some err \<Rightarrow> (([], Some err), b)
                | None \<Rightarrow> (let (u, err) = Unmarshal dec_Uuid (Result response) zero_Uuid
                    in ((Id u, err), b)))))"

text \<open>Places a market sell order in a market.\<close>

definition SellMarket ::
  "('f \<Rightarrow> string) \<Rightarrow> client \<Rightarrow> string \<Rightarrow> 'f
    \<Rightarrow> (string \<times> error option) \<times> client" where
  "SellMarket ff b market quantity =
     (let
        (r, b) =
          do b ''GET''
            (''market/selllimit?market='' @ market @ ''&quantity='' @ ff quantity)
            [] True
      in case r of
        Inl err \<Rightarrow> (([], Some err), b)
      | Inr r \<Rightarrow>
          (case Unmarshal dec_jsonResponse r zero_jsonResponse of
             (response, Some err) \<Rightarrow> (([], Some err), b)
           | (response, None) \<Rightarrow>
               (case handleErr response of
                  Some err \<Rightarrow> (([], Some err), b)
                | None \<Rightarrow> (let (u, err) = Unmarshal dec_Uuid (Result response) zero_Uuid
                    in ((Id u, err), b)))))"

text \<open>Cancels a buy or sell order.\<close>

definition CancelOrder :: "client \<Rightarrow> string \<Rightarrow> error option \<times> client" where
  "CancelOrder b orderID =
     (let (r, b) = do b ''GET'' (''market/cancel?uuid='' @ orderID) [] True
      in case r of
        Inl err \<Rightarrow> (Some err, b)
      | Inr r \<Rightarrow>
          (case Unmarshal dec_jsonResponse r zero_jsonResponse of
             (response, Some err) \<Rightarrow> (Some err, b)
           | (response, None) \<Rightarrow> (handleErr response, b)))"

text \<open>
  The orders currently open: all of them when \<open>market\<close> is \<^verbatim>\<open>"all"\<close>, those of the market
  otherwise.  The envelope is decoded twice, and \<open>handleErr\<close> is not called.
\<close>

definition GetOpenOrders ::
  "(string \<Rightarrow> string) \<Rightarrow> 'a decoder \<Rightarrow> 'a \<Rightarrow> client \<Rightarrow> string
    \<Rightarrow> ('a \<times> error option) \<times> client" where
  "GetOpenOrders up dec zero b market =
     (let
        ressource = ''market/getopenorders'';
        ressource =
          (if market \<noteq> ''all'' then ressource @ ''?market='' @ ToUpper up market
           else ressource);
        (r, b) = do b ''GET'' ressource [] True
      in case r of
        Inl err \<Rightarrow> ((zero, Some err), b)
      | Inr r \<Rightarrow>
          (case Unmarshal dec_jsonResponse r zero_jsonResponse of
             (response, Some err) \<Rightarrow> ((zero, Some err), b)
           | (response, None) \<Rightarrow>
               (case Unmarshal dec_jsonResponse r response of
                  (response, Some err) \<Rightarrow> ((zero, Some err), b)
                | (response, None) \<Rightarrow> (Unmarshal dec (Result response) zero, b))))"

text \<open>All balances of the account.\<close>

definition GetBalances :: "'a decoder \<Rightarrow> 'a \<Rightarrow> client \<Rightarrow> ('a \<times> error option) \<times> client" where
  "GetBalances dec zero b =
     (let (r, b) = do b ''GET'' ''account/getbalances'' [] True
      in case r of
        Inl err \<Rightarrow> ((zero, Some err), b)
      | Inr r \<Rightarrow>
          (case Unmarshal dec_jsonResponse r zero_jsonResponse of
             (response, Some err) \<Rightarrow> ((zero, Some err), b)
           | (response, None) \<Rightarrow>
               (case handleErr response of
                  Some err \<Rightarrow> ((zero, Some err), b)
                | None \<Rightarrow> (Unmarshal dec (Result response) zero, b))))"

text \<open>The balance of the account for a currency.\<close>

definition GetBalance ::
  "(string \<Rightarrow> string) \<Rightarrow> 'a decoder \<Rightarrow> 'a \<Rightarrow> client \<Rightarrow> string
    \<Rightarrow> ('a \<times> error option) \<times> client" where
  "GetBalance up dec zero b currency =
     (let (r, b) = do b ''GET'' (''account/getbalance?currency='' @ ToUpper up currency) [] True
      in case r of
        Inl err \<Rightarrow> ((zero, Some err), b)
      | Inr r \<Rightarrow>
          (case Unmarshal dec_jsonResponse r zero_jsonResponse of
             (response, Some err) \<Rightarrow> ((zero, Some err), b)
           | (response, None) \<Rightarrow>
               (case handleErr response of
                  Some err \<Rightarrow> ((zero, Some err), b)
                | None \<Rightarrow> (Unmarshal dec (Result response) zero, b))))"

text \<open>Generates or retrieves an address for a currency.\<close>

definition GetDepositAddress ::
  "(string \<Rightarrow> string) \<Rightarrow> 'a decoder \<Rightarrow> 'a \<Rightarrow> client \<Rightarrow> string
    \<Rightarrow> ('a \<times> error option) \<times> client" where
  "GetDepositAddress up dec zero b currency =
     (let
        (r, b) =
          do b ''GET''
            (''account/getdepositaddress?currency='' @ ToUpper up currency)
            [] True
      in case r of
        Inl err \<Rightarrow> ((zero, Some err), b)
      | Inr r \<Rightarrow>
          (case Unmarshal dec_jsonResponse r zero_jsonResponse of
             (response, Some err) \<Rightarrow> ((zero, Some err), b)
           | (response, None) \<Rightarrow>
               (case handleErr response of
                  Some err \<Rightarrow> ((zero, Some err), b)
                | None \<Rightarrow> (Unmarshal dec (Result response) zero, b))))"

text \<open>Withdraws funds from the account, to the given address.\<close>

definition Withdraw ::
  "(string \<Rightarrow> string) \<Rightarrow> ('f \<Rightarrow> string) \<Rightarrow> client \<Rightarrow> string \<Rightarrow> string \<Rightarrow> 'f
    \<Rightarrow> (string \<times> error option) \<times> client" where
  "Withdraw up ff b address currency quantity =
     (let
        (r, b) =
          do b ''GET''
            (''account/withdraw?currency='' @ ToUpper up currency
               @ ''&quantity='' @ ff quantity @ ''&address='' @ address)
            [] True
      in case r of
        Inl err \<Rightarrow> (([], Some err), b)
      | Inr r \<Rightarrow>
          (case Unmarshal dec_jsonResponse r zero_jsonResponse of
             (response, Some err) \<Rightarrow> (([], Some err), b)
           | (response, None) \<Rightarrow>
               (case handleErr response of
                  Some err \<Rightarrow> (([], Some err), b)
                | None \<Rightarrow> (let (u, err) = Unmarshal dec_Uuid (Result response) zero_Uuid
                    in ((Id u, err), b)))))"

text \<open>
  The order history: of all markets when \<open>market\<close> is \<^verbatim>\<open>"all"\<close>.  \<open>count\<close> is the number of
  records to return; when it is 0, the maximum is returned.
\<close>

definition GetOrderHistory ::
  "'a decoder \<Rightarrow> 'a \<Rightarrow> client \<Rightarrow> string \<Rightarrow> go_int \<Rightarrow> ('a \<times> error option) \<times> client" where
  "GetOrderHistory dec zero b market count =
     (let
        ressource = ''account/getorderhistory'';
        ressource = (if count \<noteq> 0 \<or> market \<noteq> ''all'' then ressource @ ''?'' else ressource);
        ressource =
          (if count \<noteq> 0 then ressource @ ''count='' @ fmt_d count @ ''&'' else ressource);
        ressource =
          (if market \<noteq> ''all'' then ressource @ ''market='' @ market else ressource);
        (r, b) = do b ''GET'' ressource [] True
      in case r of
        Inl err \<Rightarrow> ((zero, Some err), b)
      | Inr r \<Rightarrow>
          (case Unmarshal dec_jsonResponse r zero_jsonResponse of
             (response, Some err) \<Rightarrow> ((zero, Some err), b)
           | (response, None) \<Rightarrow>
               (case handleErr response of
                  Some err \<Rightarrow> ((zero, Some err), b)
                | None \<Rightarrow> (Unmarshal dec (Result response) zero, b))))"

text \<open>
  The withdrawal history: of all currencies when \<open>currency\<close> is \<^verbatim>\<open>"all"\<close>.  \<open>count\<close> is the number of
  records to return; when it is 0, the maximum is returned.
\<close>

definition GetWithdrawalHistory ::
  "'a decoder \<Rightarrow> 'a \<Rightarrow> client \<Rightarrow> string \<Rightarrow> go_int \<Rightarrow> ('a \<times> error option) \<times> client" where
  "GetWithdrawalHistory dec zero b currency count =
     (let
        ressource = ''account/getwithdrawalhistory'';
        ressource = (if count \<noteq> 0 \<or> currency \<noteq> ''all'' then ressource @ ''?'' else ressource);
        ressource =
          (if count \<noteq> 0 then ressource @ ''count='' @ fmt_d count @ ''&'' else ressource);
        ressource =
          (if currency \<noteq> ''all'' then ressource @ ''currency='' @ currency else ressource);
        (r, b) = do b ''GET'' ressource [] True
      in case r of
        Inl err \<Rightarrow> ((zero, Some err), b)
      | Inr r \<Rightarrow>
          (case Unmarshal dec_jsonResponse r zero_jsonResponse of
             (response, Some err) \<Rightarrow> ((zero, Some err), b)
           | (response, None) \<Rightarrow>
               (case handleErr response of
                  Some err \<Rightarrow> ((zero, Some err), b)
                | None \<Rightarrow> (Unmarshal dec (Result response) zero, b))))"

text \<open>
  The deposit history: of all currencies when \<open>currency\<close> is \<^verbatim>\<open>"all"\<close>.  \<open>count\<close> is the number of
  records to return; when it is 0, the maximum is returned.
\<close>

definition GetDepositHistory ::
  "'a decoder \<Rightarrow> 'a \<Rightarrow> client \<Rightarrow> string \<Rightarrow> go_int \<Rightarrow> ('a \<times> error option) \<times> client" where
  "GetDepositHistory dec zero b currency count =
     (let
        ressource = ''account/getdeposithistory'';
        ressource = (if count \<noteq> 0 \<or> currency \<noteq> ''all'' then ressource @ ''?'' else ressource);
        ressource =
          (if count \<noteq> 0 then ressource @ ''count='' @ fmt_d count @ ''&'' else ressource);
        ressource =
          (if currency \<noteq> ''all'' then ressource @ ''currency='' @ currency else ressource);
        (r, b) = do b ''GET'' ressource [] True
      in case r of
        Inl err \<Rightarrow> ((zero, Some err), b)
      | Inr r \<Rightarrow>
          (case Unmarshal dec_jsonResponse r zero_jsonResponse of
             (response, Some err) \<Rightarrow> ((zero, Some err), b)
           | (response, None) \<Rightarrow>
               (case handleErr response of
                  Some err \<Rightarrow> ((zero, Some err), b)
                | None \<Rightarrow> (Unmarshal dec (Result response) zero, b))))"

section \<open>The common tail of the operations\<close>

text \<open>
  The operations repeat one tail after the call of \<^verbatim>\<open>do\<close>: decode the envelope,
  call \<open>handleErr\<close>, decode the result.  The four forms of that tail are named here
  for the proofs; each operation is shown below to be its request followed by its tail.
\<close>

definition payload_tail :: "'a decoder \<Rightarrow> 'a \<Rightarrow> error + bytes \<Rightarrow> 'a \<times> error option" where
  "payload_tail dec zero r =
     (case r of
        Inl err \<Rightarrow> (zero, Some err)
      | Inr r \<Rightarrow>
          (case Unmarshal dec_jsonResponse r zero_jsonResponse of
             (response, Some err) \<Rightarrow> (zero, Some err)
           | (response, None) \<Rightarrow>
               (case handleErr response of
                  Some err \<Rightarrow> (zero, Some err)
                | None \<Rightarrow> Unmarshal dec (Result response) zero)))"

definition uuid_tail :: "error + bytes \<Rightarrow> string \<times> error option" where
  "uuid_tail r =
     (case r of
        Inl err \<Rightarrow> ([], Some err)
      | Inr r \<Rightarrow>
          (case Unmarshal dec_jsonResponse r zero_jsonResponse of
             (response, Some err) \<Rightarrow> ([], Some err)
           | (response, None) \<Rightarrow>
               (case handleErr response of
                  Some err \<Rightarrow> ([], Some err)
                | None \<Rightarrow>
                    (let (u, err) = Unmarshal dec_Uuid (Result response) zero_Uuid
                     in (Id u, err)))))"

definition cancel_tail :: "error + bytes \<Rightarrow> error option" where
  "cancel_tail r =
     (case r of
        Inl err \<Rightarrow> Some err
      | Inr r \<Rightarrow>
          (case Unmarshal dec_jsonResponse r zero_jsonResponse of
             (response, Some err) \<Rightarrow> Some err
           | (response, None) \<Rightarrow> handleErr response))"

definition openorders_tail :: "'a decoder \<Rightarrow> 'a \<Rightarrow> error + bytes \<Rightarrow> 'a \<times> error option" where
  "openorders_tail dec zero r =
     (case r of
        Inl err \<Rightarrow> (zero, Some err)
      | Inr r \<Rightarrow>
          (case Unmarshal dec_jsonResponse r zero_jsonResponse of
             (response, Some err) \<Rightarrow> (zero, Some err)
           | (response, None) \<Rightarrow>
               (case Unmarshal dec_jsonResponse r response of
                  (response, Some err) \<Rightarrow> (zero, Some err)
                | (response, None) \<Rightarrow> Unmarshal dec (Result response) zero)))"

section \<open>Notation and sample inputs\<close>

text \<open>
  \<open>GET res auth\<close> is the request that \<open>do\<close> records for the path \<open>res\<close>; \<open>answer b x\<close> is what
  the exchange answers to the request that the call \<open>x\<close>, made with the client \<open>b\<close>, has
  issued last.
\<close>

abbreviation GET :: "string \<Rightarrow> bool \<Rightarrow> request" where
  "GET res auth \<equiv> \<lparr>httpMethod = ''GET'', ressource = res, payload = [], authNeeded = auth\<rparr>"

abbreviation answer :: "client \<Rightarrow> 'r \<times> client \<Rightarrow> error + bytes" where
  "answer b x \<equiv> reply b (last (sent (snd x)))"

text \<open>
  Clients and documents for the concrete cases below: a client whose every request fails
  in transport, a client whose every request is answered by the document \<open>j\<close>, an
  envelope, and an entry of an order book as the exchange writes it.
\<close>

abbreviation offline :: client where
  "offline \<equiv> \<lparr>reply = (\<lambda>q. Inl (DoError ''timeout'')), sent = []\<rparr>"

abbreviation answering :: "json \<Rightarrow> client" where
  "answering j \<equiv> \<lparr>reply = (\<lambda>q. Inr (Some j)), sent = []\<rparr>"

abbreviation envelope :: "bool \<Rightarrow> string \<Rightarrow> json \<Rightarrow> json" where
  "envelope ok msg res \<equiv>
     JObject [(''success'', JBool ok), (''message'', JString msg), (''result'', res)]"

abbreviation entry :: "string \<Rightarrow> string \<Rightarrow> json" where
  "entry q r \<equiv> JObject [(''Quantity'', JNumber q), (''Rate'', JNumber r)]"

section \<open>Each operation is one request and its tail\<close>

lemma GetMarkets_unfold:
  "GetMarkets dec zero b =
     (let q = GET ''public/getmarkets'' False
      in (payload_tail dec zero (reply b q),
          b\<lparr>sent := sent b @ [q]\<rparr>))"
  by (simp
      add: GetMarkets_def do_def Let_def payload_tail_def
      split: sum.split prod.split option.split split del: if_split)

lemma GetTicker_unfold:
  "GetTicker up dec zero b market =
     (let q = GET (''public/getticker?market='' @ ToUpper up market) False
      in (payload_tail dec zero (reply b q),
          b\<lparr>sent := sent b @ [q]\<rparr>))"
  by (simp
      add: GetTicker_def do_def Let_def payload_tail_def
      split: sum.split prod.split option.split split del: if_split)

lemma GetMarketSummaries_unfold:
  "GetMarketSummaries dec zero b =
     (let q = GET ''public/getmarketsummaries'' False
      in (payload_tail dec zero (reply b q),
          b\<lparr>sent := sent b @ [q]\<rparr>))"
  by (simp
      add: GetMarketSummaries_def do_def Let_def payload_tail_def
      split: sum.split prod.split option.split split del: if_split)

lemma GetOrderBook_unfold:
  "GetOrderBook up d z b market cat depth =
     (let q = GET
            (''public/getorderbook?market='' @ ToUpper up market @ ''&type=''
               @ (if cat \<noteq> ''buy'' \<and> cat \<noteq> ''sell'' \<and> cat \<noteq> ''both'' then ''both'' else cat)
               @ ''&depth=''
               @ fmt_d (if (if 100 <s depth then 100 else depth) <s 1 then 1
                        else (if 100 <s depth then 100 else depth)))
            False
      in (payload_tail (dec_OrderBook d z) zero_OrderBook (reply b q),
          b\<lparr>sent := sent b @ [q]\<rparr>))"
  by (simp
      add: GetOrderBook_def do_def Let_def payload_tail_def
      split: sum.split prod.split option.split split del: if_split)

lemma GetMarketHistory_unfold:
  "GetMarketHistory up dec zero b market count =
     (let q = GET
            (''public/getmarkethistory?market='' @ ToUpper up market @ ''&count=''
               @ fmt_d (if (if 100 <s count then 100 else count) <s 1 then 1
                        else (if 100 <s count then 100 else count)))
            False
      in (payload_tail dec zero (reply b q),
          b\<lparr>sent := sent b @ [q]\<rparr>))"
  by (simp
      add: GetMarketHistory_def do_def Let_def payload_tail_def
      split: sum.split prod.split option.split split del: if_split)

lemma BuyLimit_unfold:
  "BuyLimit ff b market quantity rate =
     (let q = GET
            (''market/buylimit?market='' @ market @ ''&quantity='' @ ff quantity
               @ ''&rate='' @ ff rate)
            True
      in (uuid_tail (reply b q),
          b\<lparr>sent := sent b @ [q]\<rparr>))"
  by (simp
      add: BuyLimit_def do_def Let_def uuid_tail_def
      split: sum.split prod.split option.split split del: if_split)

lemma BuyMarket_unfold:
  "BuyMarket ff b market quantity =
     (let q = GET (''market/buymarket?market='' @ market @ ''&quantity='' @ ff quantity) True
      in (uuid_tail (reply b q),
          b\<lparr>sent := sent b @ [q]\<rparr>))"
  by (simp
      add: BuyMarket_def do_def Let_def uuid_tail_def
      split: sum.split prod.split option.split split del: if_split)

lemma SellLimit_unfold:
  "SellLimit ff b market quantity rate =
     (let q = GET
            (''market/selllimit?market='' @ market @ ''&quantity='' @ ff quantity
               @ ''&rate='' @ ff rate)
            True
      in (uuid_tail (reply b q),
          b\<lparr>sent := sent b @ [q]\<rparr>))"
  by (simp
      add: SellLimit_def do_def Let_def uuid_tail_def
      split: sum.split prod.split option.split split del: if_split)

lemma SellMarket_unfold:
  "SellMarket ff b market quantity =
     (let q = GET (''market/selllimit?market='' @ market @ ''&quantity='' @ ff quantity) True
      in (uuid_tail (reply b q),
          b\<lparr>sent := sent b @ [q]\<rparr>))"
  by (simp
      add: SellMarket_def do_def Let_def uuid_tail_def
      split: sum.split prod.split option.split split del: if_split)

lemma CancelOrder_unfold:
  "CancelOrder b orderID =
     (let q = GET (''market/cancel?uuid='' @ orderID) True
      in (cancel_tail (reply b q),
          b\<lparr>sent := sent b @ [q]\<rparr>))"
  by (simp
      add: CancelOrder_def do_def Let_def cancel_tail_def
      split: sum.split prod.split option.split split del: if_split)

lemma GetOpenOrders_unfold:
  "GetOpenOrders up dec zero b market =
     (let q = GET
            (''market/getopenorders''
               @ (if market \<noteq> ''all'' then ''?market='' @ ToUpper up market else []))
            True
      in (openorders_tail dec zero (reply b q),
          b\<lparr>sent := sent b @ [q]\<rparr>))"
  by (cases "market = ''all''"; simp
      add: GetOpenOrders_def do_def Let_def openorders_tail_def
      split: sum.split prod.split option.split split del: if_split)

lemma GetBalances_unfold:
  "GetBalances dec zero b =
     (let q = GET ''account/getbalances'' True
      in (payload_tail dec zero (reply b q),
          b\<lparr>sent := sent b @ [q]\<rparr>))"
  by (simp
      add: GetBalances_def do_def Let_def payload_tail_def
      split: sum.split prod.split option.split split del: if_split)

lemma GetBalance_unfold:
  "GetBalance up dec zero b currency =
     (let q = GET (''account/getbalance?currency='' @ ToUpper up currency) True
      in (payload_tail dec zero (reply b q),
          b\<lparr>sent := sent b @ [q]\<rparr>))"
  by (simp
      add: GetBalance_def do_def Let_def payload_tail_def
      split: sum.split prod.split option.split split del: if_split)

lemma GetDepositAddress_unfold:
  "GetDepositAddress up dec zero b currency =
     (let q = GET (''account/getdepositaddress?currency='' @ ToUpper up currency) True
      in (payload_tail dec zero (reply b q),
          b\<lparr>sent := sent b @ [q]\<rparr>))"
  by (simp
      add: GetDepositAddress_def do_def Let_def payload_tail_def
      split: sum.split prod.split option.split split del: if_split)

lemma Withdraw_unfold:
  "Withdraw up ff b address currency quantity =
     (let q = GET
            (''account/withdraw?currency='' @ ToUpper up currency
               @ ''&quantity='' @ ff quantity @ ''&address='' @ address)
            True
      in (uuid_tail (reply b q),
          b\<lparr>sent := sent b @ [q]\<rparr>))"
  by (simp
      add: Withdraw_def do_def Let_def uuid_tail_def
      split: sum.split prod.split option.split split del: if_split)

lemma GetOrderHistory_unfold:
  "GetOrderHistory dec zero b market count =
     (let q = GET
            (''account/getorderhistory''
               @ (if count \<noteq> 0 \<or> market \<noteq> ''all'' then ''?'' else [])
               @ (if count \<noteq> 0 then ''count='' @ fmt_d count @ ''&'' else [])
               @ (if market \<noteq> ''all'' then ''market='' @ market else []))
            True
      in (payload_tail dec zero (reply b q),
          b\<lparr>sent := sent b @ [q]\<rparr>))"
  by (cases "market = ''all''"; cases "count = 0"; simp
      add: GetOrderHistory_def do_def Let_def payload_tail_def
      split: sum.split prod.split option.split split del: if_split)

lemma GetWithdrawalHistory_unfold:
  "GetWithdrawalHistory dec zero b currency count =
     (let q = GET
            (''account/getwithdrawalhistory''
               @ (if count \<noteq> 0 \<or> currency \<noteq> ''all'' then ''?'' else [])
               @ (if count \<noteq> 0 then ''count='' @ fmt_d count @ ''&'' else [])
               @ (if currency \<noteq> ''all'' then ''currency='' @ currency else []))
            True
      in (payload_tail dec zero (reply b q),
          b\<lparr>sent := sent b @ [q]\<rparr>))"
  by (cases "currency = ''all''"; cases "count = 0"; simp
      add: GetWithdrawalHistory_def do_def Let_def payload_tail_def
      split: sum.split prod.split option.split split del: if_split)

lemma GetDepositHistory_unfold:
  "GetDepositHistory dec zero b currency count =
     (let q = GET
            (''account/getdeposithistory''
               @ (if count \<noteq> 0 \<or> currency \<noteq> ''all'' then ''?'' else [])
               @ (if count \<noteq> 0 then ''count='' @ fmt_d count @ ''&'' else [])
               @ (if currency \<noteq> ''all'' then ''currency='' @ currency else []))
            True
      in (payload_tail dec zero (reply b q),
          b\<lparr>sent := sent b @ [q]\<rparr>))"
  by (cases "currency = ''all''"; cases "count = 0"; simp
      add: GetDepositHistory_def do_def Let_def payload_tail_def
      split: sum.split prod.split option.split split del: if_split)

section \<open>Facts about the library functions\<close>

lemma of_char_upper_byte:
  "(of_char (upper_byte c) :: nat) =
     (if (97::nat) \<le> of_char c \<and> of_char c \<le> (122::nat) then of_char c - 32 else of_char c)"
  by (auto simp: upper_byte_def)

lemma upper_byte_idem: "upper_byte (upper_byte c) = upper_byte c"
proof (cases "(97::nat) \<le> of_char c \<and> of_char c \<le> (122::nat)")
  case True
  then have "(of_char (upper_byte c) :: nat) < 97" by (auto simp: of_char_upper_byte)
  then show ?thesis unfolding upper_byte_def [of "upper_byte c"] by simp
next
  case False
  then have "upper_byte c = c" by (auto simp: upper_byte_def)
  then show ?thesis by simp
qed

lemma isASCII_upper: "isASCII s \<Longrightarrow> isASCII (map upper_byte s)"
  by (induction s) (auto simp: isASCII_def of_char_upper_byte)

lemma ToUpper_idem: "isASCII s \<Longrightarrow> ToUpper up (ToUpper up s) = ToUpper up s"
  by (simp add: ToUpper_def isASCII_upper upper_byte_idem)

lemma ToUpper_not_all: "isASCII s \<Longrightarrow> ToUpper up s \<noteq> ''all''"
proof
  assume a: "isASCII s" and e: "ToUpper up s = ''all''"
  then obtain c cs where s: "s = c # cs" by (cases s) (auto simp: ToUpper_def)
  with a e have "upper_byte c = CHR ''a''" by (simp add: ToUpper_def)
  then have "(of_char (upper_byte c) :: nat) = 97" by simp
  then show False by (simp add: of_char_upper_byte split: if_splits)
qed

lemma ToUpper_btc_ltc: "ToUpper up ''btc-ltc'' = ''BTC-LTC''"
  by (simp add: ToUpper_def isASCII_def upper_byte_def char_of_eq_iff)

lemma isASCII_btc_ltc: "isASCII ''btc-ltc''"
  by (simp add: isASCII_def)

lemma fmt_d_samples: "fmt_d 50 = ''50''" "fmt_d 100 = ''100''" "fmt_d 150 = ''150''"
  by (simp_all add: fmt_d_def digits.simps digit_def char_of_eq_iff word_sless_alt)

lemma sless_samples:
  "1 \<le>s (50 :: go_int)" "(50 :: go_int) \<le>s 100" "\<not> (150 :: go_int) \<le>s 100"
  "(50 :: go_int) \<noteq> 0" "(150 :: go_int) \<noteq> 0"
  by (simp_all add: word_sle_eq)

lemma digits_chars: "set (digits n) \<subseteq> set ''0123456789''"
proof (induction n rule: digits.induct)
  case (1 n)
  have d: "m < 10 \<Longrightarrow> digit m \<in> set ''0123456789''" for m
  proof -
    assume "m < 10"
    then have "m \<in> {0,1,2,3,4,5,6,7,8,9}" by auto
    then show ?thesis by (auto simp: digit_def char_of_eq_iff)
  qed
  show ?case
  proof (cases "n < 10")
    case True
    then show ?thesis using d [of n] by (subst digits.simps) simp
  next
    case False
    then show ?thesis using 1 d [of "n mod 10"] by (subst digits.simps) simp
  qed
qed

lemma fmt_d_no_eq: "CHR ''='' \<notin> set (fmt_d c)"
  using digits_chars [of "nat (- sint c)"] digits_chars [of "nat (sint c)"]
  by (auto simp: fmt_d_def)

lemma unique_split:
  "u @ x # v = u' @ x # v' \<Longrightarrow> x \<notin> set u' \<Longrightarrow> x \<notin> set v' \<Longrightarrow> u = u' \<and> v = v'"
  by (auto simp: append_eq_append_conv2 Cons_eq_append_conv append_eq_Cons_conv)

lemma no_param:
  assumes "CHR ''='' \<notin> set base" "CHR ''='' \<notin> set ds" "\<not> suffix key (base @ ''?count'')"
  shows "\<not> sublist (key @ ''='') (base @ ''?count='' @ ds @ ''&'')"
proof
  assume "sublist (key @ ''='') (base @ ''?count='' @ ds @ ''&'')"
  then obtain ps ss where "base @ ''?count='' @ ds @ ''&'' = ps @ (key @ ''='') @ ss"
    by (auto simp: sublist_def)
  then have "(ps @ key) @ CHR ''='' # ss = (base @ ''?count'') @ CHR ''='' # (ds @ ''&'')" by simp
  from unique_split [OF this] assms have "ps @ key = base @ ''?count''" by auto
  then have "suffix key (base @ ''?count'')" by (metis suffixI)
  with assms show False by simp
qed

lemma no_param_base:
  assumes "CHR ''='' \<notin> set base"
  shows "\<not> sublist (key @ ''='') base"
proof
  assume "sublist (key @ ''='') base"
  then have "set (key @ ''='') \<subseteq> set base" by (rule set_mono_sublist)
  with assms show False by simp
qed

subsection \<open>Decoding\<close>

lemma foldName_keys:
  "foldName ''success'' = ''SUCCESS''" "foldName ''message'' = ''MESSAGE''"
  "foldName ''result'' = ''RESULT''" "foldName ''buy'' = ''BUY''"
  "foldName ''sell'' = ''SELL''" "foldName ''uuid'' = ''UUID''"
  by (simp_all add: foldName_def upper_byte_def char_of_eq_iff)

lemma fst_dec_elems: "fst (dec_elems d z js) = map (\<lambda>j. fst (d j z)) js"
  by (induction js) (simp_all add: case_prod_beta)

lemma snd_dec_elems: "\<forall>j\<in>set js. snd (d j z) = None \<Longrightarrow> snd (dec_elems d z js) = None"
  by (induction js) (simp_all add: saveError_def case_prod_beta)

lemma depth_150:
  "(if (if (100 :: go_int) <s 150 then (100 :: go_int) else 150) <s 1 then 1
    else (if (100 :: go_int) <s 150 then (100 :: go_int) else 150)) = 100"
  by (simp add: word_sless_alt)







section \<open>The requests\<close>

text \<open>
  C5.  For every depth, the depth that \<open>GetOrderBook\<close> sends is a value \<open>d'\<close> with
  \<open>1 \<le> d' \<le> 100\<close>, and it is the given depth whenever that lies between 1 and 100.
\<close>

theorem GetOrderBook_depth_clamped:
  "\<exists>d'. sent (snd (GetOrderBook up d z b market cat depth)) =
          sent b @ [GET
            (''public/getorderbook?market='' @ ToUpper up market @ ''&type=''
               @ (if cat \<noteq> ''buy'' \<and> cat \<noteq> ''sell'' \<and> cat \<noteq> ''both'' then ''both'' else cat)
               @ ''&depth='' @ fmt_d d')
            False]
      \<and> 1 \<le>s d' \<and> d' \<le>s 100 \<and> (1 \<le>s depth \<and> depth \<le>s 100 \<longrightarrow> d' = depth)"
proof -
  let ?d = "if (if 100 <s depth then 100 else depth) <s 1 then 1
            else (if 100 <s depth then 100 else depth)"
  have "1 \<le>s ?d" "?d \<le>s 100" "1 \<le>s depth \<and> depth \<le>s 100 \<longrightarrow> ?d = depth"
    by (simp_all add: word_sle_eq word_sless_alt)
  then show ?thesis
    by (intro exI [of _ ?d]) (simp add: GetOrderBook_unfold Let_def split del: if_split)
qed

theorem GetOrderBook_depth_clamped_witness:
  "1 \<le>s (50 :: go_int) \<and> (50 :: go_int) \<le>s 100 \<and>
   map ressource (sent (snd (GetOrderBook (\<lambda>s. s) dec_RawMessage None offline
       ''btc-ltc'' ''both'' 50)))
     = [''public/getorderbook?market=BTC-LTC&type=both&depth=50'']"
  using GetOrderBook_depth_clamped [of "\<lambda>s. s" dec_RawMessage None offline
      "''btc-ltc''" "''both''" 50]
  by (auto simp add: ToUpper_btc_ltc fmt_d_samples sless_samples)

text \<open>
  C10.  For every \<open>cat\<close> other than \<^verbatim>\<open>"buy"\<close>, \<^verbatim>\<open>"sell"\<close> and \<^verbatim>\<open>"both"\<close>, \<open>GetOrderBook\<close> sends
  the type parameter \<^verbatim>\<open>"both"\<close>; for these three values it sends the given \<open>cat\<close> unchanged.
\<close>

theorem GetOrderBook_type_parameter:
  "(cat \<noteq> ''buy'' \<and> cat \<noteq> ''sell'' \<and> cat \<noteq> ''both'' \<longrightarrow>
      (\<exists>d'. sent (snd (GetOrderBook up d z b market cat depth)) =
         sent b @ [GET
           (''public/getorderbook?market='' @ ToUpper up market
              @ ''&type=both&depth='' @ fmt_d d')
           False]))
   \<and> (cat = ''buy'' \<or> cat = ''sell'' \<or> cat = ''both'' \<longrightarrow>
      (\<exists>d'. sent (snd (GetOrderBook up d z b market cat depth)) =
         sent b @ [GET
           (''public/getorderbook?market='' @ ToUpper up market
              @ ''&type='' @ cat @ ''&depth='' @ fmt_d d')
           False]))"
  by (auto simp add: GetOrderBook_unfold Let_def)

theorem GetOrderBook_type_parameter_witness:
  "''asks'' \<noteq> ''buy'' \<and> ''asks'' \<noteq> ''sell'' \<and> ''asks'' \<noteq> ''both'' \<and>
   (\<exists>d'. map ressource (sent (snd (GetOrderBook (\<lambda>s. s) dec_RawMessage None offline
       ''BTC-LTC'' ''asks'' 50)))
     = [''public/getorderbook?market=BTC-LTC&type=both&depth='' @ fmt_d d']) \<and>
   (\<exists>d'. map ressource (sent (snd (GetOrderBook (\<lambda>s. s) dec_RawMessage None offline
       ''BTC-LTC'' ''sell'' 50)))
     = [''public/getorderbook?market=BTC-LTC&type=sell&depth='' @ fmt_d d'])"
proof -
  have u: "ToUpper (\<lambda>s. s) ''BTC-LTC'' = ''BTC-LTC''"
    by (simp add: ToUpper_def isASCII_def upper_byte_def)
  have "\<exists>d'. sent (snd (GetOrderBook (\<lambda>s. s) dec_RawMessage None offline
          ''BTC-LTC'' ''asks'' 50)) =
        [GET (''public/getorderbook?market=BTC-LTC&type=both&depth='' @ fmt_d d') False]"
    using GetOrderBook_type_parameter [of "''asks''" "\<lambda>s. s" dec_RawMessage None offline
        "''BTC-LTC''" 50]
    by (simp add: u)
  then obtain d1 where d1:
    "sent (snd (GetOrderBook (\<lambda>s. s) dec_RawMessage None offline ''BTC-LTC'' ''asks'' 50)) =
       [GET (''public/getorderbook?market=BTC-LTC&type=both&depth='' @ fmt_d d1) False]" ..
  have "\<exists>d'. sent (snd (GetOrderBook (\<lambda>s. s) dec_RawMessage None offline
          ''BTC-LTC'' ''sell'' 50)) =
        [GET (''public/getorderbook?market=BTC-LTC&type=sell&depth='' @ fmt_d d') False]"
    using GetOrderBook_type_parameter [of "''sell''" "\<lambda>s. s" dec_RawMessage None offline
        "''BTC-LTC''" 50]
    by (simp add: u)
  then obtain d2 where d2:
    "sent (snd (GetOrderBook (\<lambda>s. s) dec_RawMessage None offline ''BTC-LTC'' ''sell'' 50)) =
       [GET (''public/getorderbook?market=BTC-LTC&type=sell&depth='' @ fmt_d d2) False]" ..
  have a: "''asks'' \<noteq> ''buy'' \<and> ''asks'' \<noteq> ''sell'' \<and> ''asks'' \<noteq> ''both''"
    by simp
  have b: "\<exists>d'. map ressource (sent (snd (GetOrderBook (\<lambda>s. s) dec_RawMessage None offline
       ''BTC-LTC'' ''asks'' 50)))
     = [''public/getorderbook?market=BTC-LTC&type=both&depth='' @ fmt_d d']"
    by (rule exI [of _ d1]) (simp add: d1)
  have c: "\<exists>d'. map ressource (sent (snd (GetOrderBook (\<lambda>s. s) dec_RawMessage None offline
       ''BTC-LTC'' ''sell'' 50)))
     = [''public/getorderbook?market=BTC-LTC&type=sell&depth='' @ fmt_d d']"
    by (rule exI [of _ d2]) (simp add: d2)
  show ?thesis
  proof (intro conjI)
    show "''asks'' \<noteq> ''buy''" "''asks'' \<noteq> ''sell''" "''asks'' \<noteq> ''both''"
      using a by (rule conjunct1, rule conjunct2 [THEN conjunct1], rule conjunct2 [THEN conjunct2])
  qed (rule b, rule c)
qed

text \<open>
  C9.  For every market and quantity, \<open>SellMarket\<close> issues its request to the path of the
  sell-limit endpoint, \<^verbatim>\<open>market/selllimit\<close>, the one \<open>SellLimit\<close> uses (without the rate).
\<close>

theorem SellMarket_uses_selllimit:
  "sent (snd (SellMarket ff b market quantity)) =
     sent b @ [GET (''market/selllimit?market='' @ market @ ''&quantity='' @ ff quantity) True]"
  by (simp add: SellMarket_unfold Let_def)

text \<open>
  C2 as stated fails: \<open>GetOrderHistory\<close> asked for 150 records sends \<^verbatim>\<open>count=150\<close>.
\<close>

theorem history_count_counterexample:
  "map ressource (sent (snd (GetOrderHistory (dec_slice dec_RawMessage None) [] offline
       ''all'' 150)))
     = [''account/getorderhistory?count=150&'']
   \<and> \<not> (150 :: go_int) \<le>s 100"
  by (simp add: GetOrderHistory_unfold Let_def fmt_d_samples sless_samples)

text \<open>
  C2, amended.  \<open>GetMarketHistory\<close> sends a count \<open>c'\<close> with \<open>1 \<le> c' \<le> 100\<close>, equal to the
  given count whenever that lies between 1 and 100.  \<open>GetOrderHistory\<close>,
  \<open>GetWithdrawalHistory\<close> and \<open>GetDepositHistory\<close> do not clamp: they send the given count
  itself when it is not 0, and no count parameter when it is 0.
\<close>

theorem history_count_sent:
  "(\<exists>c'. sent (snd (GetMarketHistory up dec zero b market count)) =
           sent b @ [GET
             (''public/getmarkethistory?market='' @ ToUpper up market
                @ ''&count='' @ fmt_d c')
             False]
       \<and> 1 \<le>s c' \<and> c' \<le>s 100 \<and> (1 \<le>s count \<and> count \<le>s 100 \<longrightarrow> c' = count))
   \<and> (count \<noteq> 0 \<longrightarrow>
        sent (snd (GetOrderHistory dec zero b sel count)) =
          sent b @ [GET
            (''account/getorderhistory?count='' @ fmt_d count @ ''&''
               @ (if sel \<noteq> ''all'' then ''market='' @ sel else []))
            True])
   \<and> (count = 0 \<longrightarrow>
        sent (snd (GetOrderHistory dec zero b sel count)) =
          sent b @ [GET
            (''account/getorderhistory'' @ (if sel \<noteq> ''all'' then ''?market='' @ sel else []))
            True])
   \<and> (count \<noteq> 0 \<longrightarrow>
        sent (snd (GetWithdrawalHistory dec zero b sel count)) =
          sent b @ [GET
            (''account/getwithdrawalhistory?count='' @ fmt_d count @ ''&''
               @ (if sel \<noteq> ''all'' then ''currency='' @ sel else []))
            True])
   \<and> (count = 0 \<longrightarrow>
        sent (snd (GetWithdrawalHistory dec zero b sel count)) =
          sent b @ [GET
            (''account/getwithdrawalhistory''
               @ (if sel \<noteq> ''all'' then ''?currency='' @ sel else []))
            True])
   \<and> (count \<noteq> 0 \<longrightarrow>
        sent (snd (GetDepositHistory dec zero b sel count)) =
          sent b @ [GET
            (''account/getdeposithistory?count='' @ fmt_d count @ ''&''
               @ (if sel \<noteq> ''all'' then ''currency='' @ sel else []))
            True])
   \<and> (count = 0 \<longrightarrow>
        sent (snd (GetDepositHistory dec zero b sel count)) =
          sent b @ [GET
            (''account/getdeposithistory''
               @ (if sel \<noteq> ''all'' then ''?currency='' @ sel else []))
            True])"
proof -
  let ?c = "if (if 100 <s count then 100 else count) <s 1 then 1
            else (if 100 <s count then 100 else count)"
  have "1 \<le>s ?c" "?c \<le>s 100" "1 \<le>s count \<and> count \<le>s 100 \<longrightarrow> ?c = count"
    by (simp_all add: word_sle_eq word_sless_alt)
  then have m:
    "\<exists>c'. sent (snd (GetMarketHistory up dec zero b market count)) =
           sent b @ [GET
             (''public/getmarkethistory?market='' @ ToUpper up market
                @ ''&count='' @ fmt_d c')
             False]
       \<and> 1 \<le>s c' \<and> c' \<le>s 100 \<and> (1 \<le>s count \<and> count \<le>s 100 \<longrightarrow> c' = count)"
    by (intro exI [of _ ?c]) (simp add: GetMarketHistory_unfold Let_def split del: if_split)
  show ?thesis
    by (intro conjI impI m)
      (simp_all add: GetOrderHistory_unfold GetWithdrawalHistory_unfold
        GetDepositHistory_unfold Let_def)
qed

theorem history_count_sent_witness:
  "1 \<le>s (50 :: go_int) \<and> (50 :: go_int) \<le>s 100 \<and> (50 :: go_int) \<noteq> 0 \<and>
   map ressource (sent (snd (GetMarketHistory (\<lambda>s. s) (dec_slice dec_RawMessage None) []
       offline ''btc-ltc'' 50)))
     = [''public/getmarkethistory?market=BTC-LTC&count=50''] \<and>
   map ressource (sent (snd (GetOrderHistory (dec_slice dec_RawMessage None) [] offline
       ''all'' 50)))
     = [''account/getorderhistory?count=50&''] \<and>
   map ressource (sent (snd (GetWithdrawalHistory (dec_slice dec_RawMessage None) [] offline
       ''all'' 0)))
     = [''account/getwithdrawalhistory'']"
  using
    history_count_sent [where up = "\<lambda>s. s" and dec = "dec_slice dec_RawMessage None"
      and zero = "[]" and b = offline and market = "''btc-ltc''" and count = 50
      and sel = "''all''"]
    history_count_sent [where up = "\<lambda>s. s" and dec = "dec_slice dec_RawMessage None"
      and zero = "[]" and b = offline and market = "''btc-ltc''" and count = 0
      and sel = "''all''"]
  by (auto simp add: ToUpper_btc_ltc fmt_d_samples sless_samples)

text \<open>
  C3 as stated fails: \<open>BuyLimit\<close> embeds the market as it is given, so the lowercase market
  and its uppercase form produce different requests.
\<close>

theorem uppercase_identifier_counterexample:
  "map ressource (sent (snd (BuyLimit (\<lambda>x. x) offline
       ''btc-ltc'' ''1.50000000'' ''0.01000000'')))
     = [''market/buylimit?market=btc-ltc&quantity=1.50000000&rate=0.01000000'']
   \<and> map ressource (sent (snd (BuyLimit (\<lambda>x. x) offline
       ''BTC-LTC'' ''1.50000000'' ''0.01000000'')))
     = [''market/buylimit?market=BTC-LTC&quantity=1.50000000&rate=0.01000000'']
   \<and> ToUpper (\<lambda>s. s) ''btc-ltc'' = ''BTC-LTC''
   \<and> sent (snd (BuyLimit (\<lambda>x. x) offline ''btc-ltc'' ''1.50000000'' ''0.01000000''))
     \<noteq> sent (snd (BuyLimit (\<lambda>x. x) offline ''BTC-LTC'' ''1.50000000'' ''0.01000000''))"
  by (simp add: BuyLimit_unfold Let_def ToUpper_btc_ltc)

text \<open>
  C3, amended.  For \<open>GetTicker\<close>, \<open>GetOrderBook\<close>, \<open>GetMarketHistory\<close>, \<open>GetBalance\<close>,
  \<open>GetDepositAddress\<close>, \<open>Withdraw\<close>, and \<open>GetOpenOrders\<close> with a market other than \<^verbatim>\<open>"all"\<close>,
  and every input string \<open>s\<close>, the identifier embedded in the request path is
  \<^verbatim>\<open>strings.ToUpper(s)\<close>; so for an ASCII string \<open>s\<close> the call with \<open>s\<close> and the call with its
  uppercase form are the same call.  \<open>BuyLimit\<close>, \<open>BuyMarket\<close>, \<open>SellLimit\<close> and \<open>SellMarket\<close>
  embed the market exactly as it is given.
\<close>

theorem uppercase_identifier:
  "(sent (snd (GetTicker up dec zero b s)) =
      sent b @ [GET (''public/getticker?market='' @ ToUpper up s) False]
    \<and> (\<exists>c' d'. sent (snd (GetOrderBook up d z b s cat depth)) =
        sent b @ [GET
          (''public/getorderbook?market='' @ ToUpper up s
             @ ''&type='' @ c' @ ''&depth='' @ fmt_d d')
          False])
    \<and> (\<exists>c'. sent (snd (GetMarketHistory up dec zero b s count)) =
        sent b @ [GET
          (''public/getmarkethistory?market='' @ ToUpper up s @ ''&count='' @ fmt_d c')
          False])
    \<and> sent (snd (GetBalance up dec zero b s)) =
        sent b @ [GET (''account/getbalance?currency='' @ ToUpper up s) True]
    \<and> sent (snd (GetDepositAddress up dec zero b s)) =
        sent b @ [GET (''account/getdepositaddress?currency='' @ ToUpper up s) True]
    \<and> sent (snd (Withdraw up ff b address s quantity)) =
        sent b @ [GET
          (''account/withdraw?currency='' @ ToUpper up s
             @ ''&quantity='' @ ff quantity @ ''&address='' @ address)
          True]
    \<and> (s \<noteq> ''all'' \<longrightarrow>
        sent (snd (GetOpenOrders up dec zero b s)) =
          sent b @ [GET (''market/getopenorders?market='' @ ToUpper up s) True]))
   \<and> (isASCII s \<longrightarrow>
        GetTicker up dec zero b s = GetTicker up dec zero b (ToUpper up s)
      \<and> GetOrderBook up d z b s cat depth = GetOrderBook up d z b (ToUpper up s) cat depth
      \<and> GetMarketHistory up dec zero b s count
          = GetMarketHistory up dec zero b (ToUpper up s) count
      \<and> GetBalance up dec zero b s = GetBalance up dec zero b (ToUpper up s)
      \<and> GetDepositAddress up dec zero b s = GetDepositAddress up dec zero b (ToUpper up s)
      \<and> Withdraw up ff b address s quantity = Withdraw up ff b address (ToUpper up s) quantity
      \<and> (s \<noteq> ''all'' \<longrightarrow>
          GetOpenOrders up dec zero b s = GetOpenOrders up dec zero b (ToUpper up s)))
   \<and> sent (snd (BuyLimit ff b s quantity rate)) =
       sent b @ [GET
         (''market/buylimit?market='' @ s @ ''&quantity='' @ ff quantity
            @ ''&rate='' @ ff rate)
         True]
   \<and> sent (snd (BuyMarket ff b s quantity)) =
       sent b @ [GET (''market/buymarket?market='' @ s @ ''&quantity='' @ ff quantity) True]
   \<and> sent (snd (SellLimit ff b s quantity rate)) =
       sent b @ [GET
         (''market/selllimit?market='' @ s @ ''&quantity='' @ ff quantity
            @ ''&rate='' @ ff rate)
         True]
   \<and> sent (snd (SellMarket ff b s quantity)) =
       sent b @ [GET (''market/selllimit?market='' @ s @ ''&quantity='' @ ff quantity) True]"
proof -
  have up: "isASCII s \<Longrightarrow> ToUpper up (ToUpper up s) = ToUpper up s"
    by (rule ToUpper_idem)
  have na: "isASCII s \<Longrightarrow> ToUpper up s \<noteq> ''all''"
    by (rule ToUpper_not_all)
  have ob:
    "\<exists>c' d'. sent (snd (GetOrderBook up d z b s cat depth)) =
        sent b @ [GET
          (''public/getorderbook?market='' @ ToUpper up s
             @ ''&type='' @ c' @ ''&depth='' @ fmt_d d')
          False]"
    by (intro exI) (simp add: GetOrderBook_unfold Let_def split del: if_split)
  have mh:
    "\<exists>c'. sent (snd (GetMarketHistory up dec zero b s count)) =
        sent b @ [GET
          (''public/getmarkethistory?market='' @ ToUpper up s @ ''&count='' @ fmt_d c')
          False]"
    by (intro exI) (simp add: GetMarketHistory_unfold Let_def split del: if_split)
  show ?thesis
    by (intro conjI impI ob mh)
      (simp_all add: GetTicker_unfold GetOrderBook_unfold GetMarketHistory_unfold
        GetBalance_unfold GetDepositAddress_unfold Withdraw_unfold GetOpenOrders_unfold
        BuyLimit_unfold BuyMarket_unfold SellLimit_unfold SellMarket_unfold Let_def up na
        split del: if_split)
qed

theorem uppercase_identifier_witness:
  "isASCII ''btc-ltc'' \<and> ''btc-ltc'' \<noteq> ''all'' \<and>
   map ressource (sent (snd (GetTicker (\<lambda>s. s) (dec_slice dec_RawMessage None) [] offline
       ''btc-ltc'')))
     = [''public/getticker?market=BTC-LTC''] \<and>
   GetTicker (\<lambda>s. s) (dec_slice dec_RawMessage None) [] offline ''btc-ltc''
     = GetTicker (\<lambda>s. s) (dec_slice dec_RawMessage None) [] offline ''BTC-LTC'' \<and>
   map ressource (sent (snd (GetOpenOrders (\<lambda>s. s) (dec_slice dec_RawMessage None) [] offline
       ''btc-ltc'')))
     = [''market/getopenorders?market=BTC-LTC''] \<and>
   GetOpenOrders (\<lambda>s. s) (dec_slice dec_RawMessage None) [] offline ''btc-ltc''
     = GetOpenOrders (\<lambda>s. s) (dec_slice dec_RawMessage None) [] offline ''BTC-LTC''"
  using uppercase_identifier [where up = "\<lambda>s. s" and dec = "dec_slice dec_RawMessage None"
      and zero = "[]" and b = offline and s = "''btc-ltc''"
      and d = dec_RawMessage and z = None and cat = "''both''" and depth = 50 and count = 50
      and ff = "\<lambda>x. x" and address = "''1abc''" and quantity = "''1.50000000''"
      and rate = "''0.01000000''"]
  by (auto simp add: ToUpper_btc_ltc isASCII_btc_ltc)

text \<open>
  C4 as stated fails: \<open>GetOrderHistory\<close> for the market \<^verbatim>\<open>"btc-ltc"\<close> sends the market in
  lower case, and the uppercase form occurs nowhere in the path.
\<close>

theorem history_selector_counterexample:
  "''btc-ltc'' \<noteq> ''all''
   \<and> map ressource (sent (snd (GetOrderHistory (dec_slice dec_RawMessage None) [] offline
       ''btc-ltc'' 0)))
     = [''account/getorderhistory?market=btc-ltc'']
   \<and> \<not> sublist ''BTC-LTC'' ''account/getorderhistory?market=btc-ltc''"
  by (simp add: GetOrderHistory_unfold Let_def sublist_Cons_right)

text \<open>
  C4, amended.  For the order, withdrawal and deposit history operations: when the
  selector is the reserved token \<^verbatim>\<open>"all"\<close>, the request path is the endpoint followed at most
  by the count parameter, and contains no market or currency parameter; for every other
  selector the path ends with the market or currency parameter carrying the selector
  exactly as it is given, without conversion to upper case.
\<close>

theorem history_selector:
  "(sel = ''all'' \<longrightarrow>
      sent (snd (GetOrderHistory dec zero b sel count)) =
        sent b @ [GET
          (''account/getorderhistory''
             @ (if count \<noteq> 0 then ''?count='' @ fmt_d count @ ''&'' else []))
          True]
      \<and> \<not> sublist ''market=''
          (''account/getorderhistory''
             @ (if count \<noteq> 0 then ''?count='' @ fmt_d count @ ''&'' else [])))
   \<and> (sel \<noteq> ''all'' \<longrightarrow>
      sent (snd (GetOrderHistory dec zero b sel count)) =
        sent b @ [GET
          (''account/getorderhistory?''
             @ (if count \<noteq> 0 then ''count='' @ fmt_d count @ ''&'' else [])
             @ ''market='' @ sel)
          True])
   \<and> (sel = ''all'' \<longrightarrow>
      sent (snd (GetWithdrawalHistory dec zero b sel count)) =
        sent b @ [GET
          (''account/getwithdrawalhistory''
             @ (if count \<noteq> 0 then ''?count='' @ fmt_d count @ ''&'' else []))
          True]
      \<and> \<not> sublist ''currency=''
          (''account/getwithdrawalhistory''
             @ (if count \<noteq> 0 then ''?count='' @ fmt_d count @ ''&'' else [])))
   \<and> (sel \<noteq> ''all'' \<longrightarrow>
      sent (snd (GetWithdrawalHistory dec zero b sel count)) =
        sent b @ [GET
          (''account/getwithdrawalhistory?''
             @ (if count \<noteq> 0 then ''count='' @ fmt_d count @ ''&'' else [])
             @ ''currency='' @ sel)
          True])
   \<and> (sel = ''all'' \<longrightarrow>
      sent (snd (GetDepositHistory dec zero b sel count)) =
        sent b @ [GET
          (''account/getdeposithistory''
             @ (if count \<noteq> 0 then ''?count='' @ fmt_d count @ ''&'' else []))
          True]
      \<and> \<not> sublist ''currency=''
          (''account/getdeposithistory''
             @ (if count \<noteq> 0 then ''?count='' @ fmt_d count @ ''&'' else [])))
   \<and> (sel \<noteq> ''all'' \<longrightarrow>
      sent (snd (GetDepositHistory dec zero b sel count)) =
        sent b @ [GET
          (''account/getdeposithistory?''
             @ (if count \<noteq> 0 then ''count='' @ fmt_d count @ ''&'' else [])
             @ ''currency='' @ sel)
          True])"
proof -
  have np:
    "\<not> sublist (key @ ''='')
        (base @ (if count \<noteq> 0 then ''?count='' @ fmt_d count @ ''&'' else []))"
    if "CHR ''='' \<notin> set base" "\<not> suffix key (base @ ''?count'')" for key base
    using that no_param [of base "fmt_d count" key] no_param_base [of base key]
      fmt_d_no_eq [of count]
    by simp
  have 1:
    "\<not> sublist ''market=''
        (''account/getorderhistory''
           @ (if count \<noteq> 0 then ''?count='' @ fmt_d count @ ''&'' else []))"
    using np [of "''account/getorderhistory''" "''market''"]
    by (simp add: suffix_to_prefix)
  have 2:
    "\<not> sublist ''currency=''
        (''account/getwithdrawalhistory''
           @ (if count \<noteq> 0 then ''?count='' @ fmt_d count @ ''&'' else []))"
    using np [of "''account/getwithdrawalhistory''" "''currency''"]
    by (simp add: suffix_to_prefix)
  have 3:
    "\<not> sublist ''currency=''
        (''account/getdeposithistory''
           @ (if count \<noteq> 0 then ''?count='' @ fmt_d count @ ''&'' else []))"
    using np [of "''account/getdeposithistory''" "''currency''"]
    by (simp add: suffix_to_prefix)
  show ?thesis
    by (intro conjI impI 1 2 3)
      (simp_all add: GetOrderHistory_unfold GetWithdrawalHistory_unfold
        GetDepositHistory_unfold Let_def)
qed

theorem history_selector_witness:
  "''btc-ltc'' \<noteq> ''all'' \<and>
   map ressource (sent (snd (GetOrderHistory (dec_slice dec_RawMessage None) [] offline
       ''all'' 50)))
     = [''account/getorderhistory?count=50&''] \<and>
   \<not> sublist ''market='' ''account/getorderhistory?count=50&'' \<and>
   map ressource (sent (snd (GetOrderHistory (dec_slice dec_RawMessage None) [] offline
       ''btc-ltc'' 50)))
     = [''account/getorderhistory?count=50&market=btc-ltc'']"
  using
    history_selector [where sel = "''all''" and dec = "dec_slice dec_RawMessage None"
      and zero = "[]" and b = offline and count = 50]
    history_selector [where sel = "''btc-ltc''" and dec = "dec_slice dec_RawMessage None"
      and zero = "[]" and b = offline and count = 50]
  by (simp add: fmt_d_samples sless_samples)

section \<open>The responses\<close>

text \<open>
  C6.  \<^verbatim>\<open>GetOrderBook("btc-ltc", "both", 150)\<close> clamps the depth to 100, puts the market in
  upper case, and issues one unauthenticated request to
  \<^verbatim>\<open>public/getorderbook?market=BTC-LTC&type=both&depth=100\<close>; when the response is the
  envelope \<^verbatim>\<open>{success:true, result:{buy:[...], sell:[...]}}\<close>, it returns the order book
  whose buy and sell lists are the decoded entries of the two arrays, in their order, and
  it returns no error when every entry decodes.
\<close>

theorem GetOrderBook_scenario:
  assumes "reply b (GET ''public/getorderbook?market=BTC-LTC&type=both&depth=100'' False)
           = Inr (Some (JObject [(''success'', JBool True),
                   (''result'', JObject [(''buy'', JArray bs), (''sell'', JArray ss)])]))"
  shows
    "snd (GetOrderBook up d z b ''btc-ltc'' ''both'' 150) =
       b\<lparr>sent := sent b
           @ [GET ''public/getorderbook?market=BTC-LTC&type=both&depth=100'' False]\<rparr>
     \<and> fst (fst (GetOrderBook up d z b ''btc-ltc'' ''both'' 150)) =
         \<lparr>Buy = map (\<lambda>j. fst (d j z)) bs, Sell = map (\<lambda>j. fst (d j z)) ss\<rparr>
     \<and> ((\<forall>j\<in>set (bs @ ss). snd (d j z) = None) \<longrightarrow>
         snd (fst (GetOrderBook up d z b ''btc-ltc'' ''both'' 150)) = None)"
proof -
  have env:
    "Unmarshal dec_jsonResponse
       (Some (JObject [(''success'', JBool True),
          (''result'', JObject [(''buy'', JArray bs), (''sell'', JArray ss)])]))
       zero_jsonResponse
     = (\<lparr>Success = True, Message = [],
         Result = Some (JObject [(''buy'', JArray bs), (''sell'', JArray ss)])\<rparr>, None)"
    by (simp add: Unmarshal_def zero_jsonResponse_def foldName_keys dec_RawMessage_def
        saveError_def)
  have res:
    "Unmarshal (dec_OrderBook d z)
       (Some (JObject [(''buy'', JArray bs), (''sell'', JArray ss)])) zero_OrderBook
     = (\<lparr>Buy = fst (dec_elems d z bs), Sell = fst (dec_elems d z ss)\<rparr>,
        saveError (snd (dec_elems d z bs)) (snd (dec_elems d z ss)))"
    by (simp add: Unmarshal_def zero_OrderBook_def foldName_keys saveError_def
        case_prod_beta split: option.split)
  have q:
    "''public/getorderbook?market='' @ ToUpper up ''btc-ltc'' @ ''&type='' @ ''both''
       @ ''&depth='' @ fmt_d 100
     = ''public/getorderbook?market=BTC-LTC&type=both&depth=100''"
    by (simp add: ToUpper_btc_ltc fmt_d_samples)
  have g:
    "GetOrderBook up d z b ''btc-ltc'' ''both'' 150 =
       ((\<lparr>Buy = fst (dec_elems d z bs), Sell = fst (dec_elems d z ss)\<rparr>,
         saveError (snd (dec_elems d z bs)) (snd (dec_elems d z ss))),
        b\<lparr>sent := sent b
            @ [GET ''public/getorderbook?market=BTC-LTC&type=both&depth=100'' False]\<rparr>)"
    unfolding GetOrderBook_unfold Let_def depth_150
    by (simp add: q [simplified] assms payload_tail_def env handleErr_def res)
  show ?thesis
    by (simp add: g fst_dec_elems snd_dec_elems saveError_def)
qed

theorem GetOrderBook_scenario_witness:
  "GetOrderBook (\<lambda>s. s) dec_RawMessage None
      (answering (JObject [(''success'', JBool True),
         (''result'', JObject
            [(''buy'', JArray [entry ''1.5'' ''0.01'', entry ''2'' ''0.009'']),
             (''sell'', JArray [entry ''3'' ''0.011''])])]))
      ''btc-ltc'' ''both'' 150 =
     ((\<lparr>Buy = [Some (entry ''1.5'' ''0.01''), Some (entry ''2'' ''0.009'')],
        Sell = [Some (entry ''3'' ''0.011'')]\<rparr>, None),
      (answering (JObject [(''success'', JBool True),
         (''result'', JObject
            [(''buy'', JArray [entry ''1.5'' ''0.01'', entry ''2'' ''0.009'']),
             (''sell'', JArray [entry ''3'' ''0.011''])])]))
        \<lparr>sent := [GET ''public/getorderbook?market=BTC-LTC&type=both&depth=100'' False]\<rparr>)"
  using GetOrderBook_scenario [where up = "\<lambda>s. s" and d = dec_RawMessage and z = None
      and bs = "[entry ''1.5'' ''0.01'', entry ''2'' ''0.009'']"
      and ss = "[entry ''3'' ''0.011'']"
      and b = "answering (JObject [(''success'', JBool True),
         (''result'', JObject
            [(''buy'', JArray [entry ''1.5'' ''0.01'', entry ''2'' ''0.009'']),
             (''sell'', JArray [entry ''3'' ''0.011''])])])"]
  by (simp add: dec_RawMessage_def prod_eq_iff)



section \<open>The envelope\<close>

text \<open>
  The operations that call \<open>handleErr\<close>: when the envelope of the response has \<open>success\<close>
  false, they return the error made of the envelope's message, and the zero payload; the
  result is not decoded.
\<close>

lemma failure_envelope_tails:
  assumes "Unmarshal dec_jsonResponse body zero_jsonResponse = (r, None)" and "\<not> Success r"
  shows "payload_tail dec zero (Inr body) = (zero, Some (ErrorsNew (Message r)))"
    and "uuid_tail (Inr body) = ([], Some (ErrorsNew (Message r)))"
    and "cancel_tail (Inr body) = Some (ErrorsNew (Message r))"
  by (simp_all add: payload_tail_def uuid_tail_def cancel_tail_def assms handleErr_def)

lemma failure_envelope:
  assumes "Unmarshal dec_jsonResponse body zero_jsonResponse = (r, None)" and "\<not> Success r"
  shows
    "(answer b (GetMarkets dec zero b) = Inr body \<longrightarrow>
        fst (GetMarkets dec zero b) = (zero, Some (ErrorsNew (Message r))))
     \<and> (answer b (GetTicker up dec zero b market) = Inr body \<longrightarrow>
        fst (GetTicker up dec zero b market) = (zero, Some (ErrorsNew (Message r))))
     \<and> (answer b (GetMarketSummaries dec zero b) = Inr body \<longrightarrow>
        fst (GetMarketSummaries dec zero b) = (zero, Some (ErrorsNew (Message r))))
     \<and> (answer b (GetOrderBook up d z b market cat depth) = Inr body \<longrightarrow>
        fst (GetOrderBook up d z b market cat depth)
          = (zero_OrderBook, Some (ErrorsNew (Message r))))
     \<and> (answer b (GetMarketHistory up dec zero b market count) = Inr body \<longrightarrow>
        fst (GetMarketHistory up dec zero b market count)
          = (zero, Some (ErrorsNew (Message r))))
     \<and> (answer b (BuyLimit ff b market quantity rate) = Inr body \<longrightarrow>
        fst (BuyLimit ff b market quantity rate) = ([], Some (ErrorsNew (Message r))))
     \<and> (answer b (BuyMarket ff b market quantity) = Inr body \<longrightarrow>
        fst (BuyMarket ff b market quantity) = ([], Some (ErrorsNew (Message r))))
     \<and> (answer b (SellLimit ff b market quantity rate) = Inr body \<longrightarrow>
        fst (SellLimit ff b market quantity rate) = ([], Some (ErrorsNew (Message r))))
     \<and> (answer b (SellMarket ff b market quantity) = Inr body \<longrightarrow>
        fst (SellMarket ff b market quantity) = ([], Some (ErrorsNew (Message r))))
     \<and> (answer b (CancelOrder b orderID) = Inr body \<longrightarrow>
        fst (CancelOrder b orderID) = Some (ErrorsNew (Message r)))
     \<and> (answer b (GetBalances dec zero b) = Inr body \<longrightarrow>
        fst (GetBalances dec zero b) = (zero, Some (ErrorsNew (Message r))))
     \<and> (answer b (GetBalance up dec zero b currency) = Inr body \<longrightarrow>
        fst (GetBalance up dec zero b currency) = (zero, Some (ErrorsNew (Message r))))
     \<and> (answer b (GetDepositAddress up dec zero b currency) = Inr body \<longrightarrow>
        fst (GetDepositAddress up dec zero b currency)
          = (zero, Some (ErrorsNew (Message r))))
     \<and> (answer b (Withdraw up ff b address currency quantity) = Inr body \<longrightarrow>
        fst (Withdraw up ff b address currency quantity)
          = ([], Some (ErrorsNew (Message r))))
     \<and> (answer b (GetOrderHistory dec zero b market count) = Inr body \<longrightarrow>
        fst (GetOrderHistory dec zero b market count)
          = (zero, Some (ErrorsNew (Message r))))
     \<and> (answer b (GetWithdrawalHistory dec zero b currency count) = Inr body \<longrightarrow>
        fst (GetWithdrawalHistory dec zero b currency count)
          = (zero, Some (ErrorsNew (Message r))))
     \<and> (answer b (GetDepositHistory dec zero b currency count) = Inr body \<longrightarrow>
        fst (GetDepositHistory dec zero b currency count)
          = (zero, Some (ErrorsNew (Message r))))"
  by (intro conjI impI)
    (simp_all add: GetMarkets_unfold GetTicker_unfold GetMarketSummaries_unfold
      GetOrderBook_unfold GetMarketHistory_unfold BuyLimit_unfold BuyMarket_unfold
      SellLimit_unfold SellMarket_unfold CancelOrder_unfold GetBalances_unfold
      GetBalance_unfold GetDepositAddress_unfold Withdraw_unfold GetOrderHistory_unfold
      GetWithdrawalHistory_unfold GetDepositHistory_unfold
      Let_def failure_envelope_tails [OF assms] split del: if_split)

text \<open>
  C1 holds for every operation but \<open>GetOpenOrders\<close>, which decodes the envelope a second
  time where the others call \<open>handleErr\<close>.  On the failure envelope
  \<^verbatim>\<open>{success:false, message:"APIKEY_INVALID", result:null}\<close> it returns no error at all (and
  the nil list of orders, decoded from the result); when the failure envelope has no
  result, it returns the decoder's syntax error, not the message.  \<open>GetBalances\<close>, on the
  first envelope, returns the error made of the message.
\<close>

theorem GetOpenOrders_failure_envelope:
  "fst (GetOpenOrders (\<lambda>s. s) (dec_slice dec_RawMessage None) []
      (answering (envelope False ''APIKEY_INVALID'' JNull)) ''all'')
     = ([], None)
   \<and> fst (GetOpenOrders (\<lambda>s. s) (dec_slice dec_RawMessage None) []
      (answering (JObject [(''success'', JBool False),
         (''message'', JString ''APIKEY_INVALID'')])) ''all'')
     = ([], Some SyntaxError)
   \<and> fst (GetBalances (dec_slice dec_RawMessage None) []
      (answering (envelope False ''APIKEY_INVALID'' JNull)))
     = ([], Some (ErrorsNew ''APIKEY_INVALID''))"
  by (simp add: GetOpenOrders_unfold GetBalances_unfold Let_def openorders_tail_def
      payload_tail_def handleErr_def Unmarshal_def zero_jsonResponse_def foldName_keys
      dec_RawMessage_def saveError_def)

section \<open>Decoding the payload\<close>




end
